theory Spec2Isabelle
  imports Main "HOL-Library.Word" "HOL-Library.Signed_Division"
begin

unbundle bit_operations_syntax

section \<open>The APDS9300 ambient light sensor driver (apds9300.c)\<close>

text \<open>
  The driver runs on the 32-bit ARM i.MX6: \<open>int\<close>, \<open>long\<close> and \<open>unsigned long\<close> are
  32 bits wide, \<open>u64\<close> is 64 bits wide. Values of the integer types that the lux
  computation works on are words of that width; \<open>+\<close>, \<open>-\<close> and \<open>*\<close> on words wrap
  around, as the kernel's build (no strict overflow) makes the machine arithmetic do.
  A C \<open>int\<close> is a \<open>32 word\<close> read with \<open>sint\<close>; an \<open>unsigned long\<close> is a \<open>32 word\<close>
  read with \<open>unat\<close>, compared with \<open>\<le>\<close> and divided with \<open>div\<close>.

  The fields of \<open>struct als_data\<close> and the return codes are only stored, compared
  and passed on, never computed with, so they are HOL integers.
\<close>

type_synonym u8 = "8 word"
type_synonym u16 = "16 word"
type_synonym s32 = "32 word"
type_synonym ulong = "32 word"
type_synonym u64 = "64 word"

subsection \<open>Register map and constants\<close>

definition ALS_CMD :: u8 where "ALS_CMD = 0x80"
definition ALS_WORD :: u8 where "ALS_WORD = 0x20"
definition ALS_CLEAR :: u8 where "ALS_CLEAR = 0x40"

definition ALS_CONTROL :: u8 where "ALS_CONTROL = 0x00"
definition ALS_THRESHLOWLOW :: u8 where "ALS_THRESHLOWLOW = 0x02"
definition ALS_THRESHHIGHLOW :: u8 where "ALS_THRESHHIGHLOW = 0x04"
definition ALS_INTERRUPT :: u8 where "ALS_INTERRUPT = 0x06"
definition ALS_DATA0LOW :: u8 where "ALS_DATA0LOW = 0x0c"
definition ALS_DATA1LOW :: u8 where "ALS_DATA1LOW = 0x0e"

definition ALS_POWER_ON :: u8 where "ALS_POWER_ON = 0x03"
definition ALS_POWER_OFF :: u8 where "ALS_POWER_OFF = 0x00"

definition ALS_INTR_ENABLE :: u8 where "ALS_INTR_ENABLE = 0x10"
definition ALS_THRESH_INTR :: u8 where "ALS_THRESH_INTR = 0x01"

definition ALS_THRESH_MAX :: int where "ALS_THRESH_MAX = 0xffff"

text \<open>
  The error numbers and the IIO core's constants come from kernel headers outside the
  driver's file; they have the headers' values. The driver relies on the error numbers
  being positive and on the two directions of its \<open>switch\<close> being different.
\<close>

definition EAGAIN :: int where "EAGAIN = 11"
definition ENOMEM :: int where "ENOMEM = 12"
definition ENODEV :: int where "ENODEV = 19"
definition EINVAL :: int where "EINVAL = 22"

definition IIO_VAL_INT :: int where "IIO_VAL_INT = 1"
definition IIO_EV_DIR_EITHER :: int where "IIO_EV_DIR_EITHER = 0"
definition IIO_EV_DIR_RISING :: int where "IIO_EV_DIR_RISING = 1"
definition IIO_EV_DIR_FALLING :: int where "IIO_EV_DIR_FALLING = 2"
definition IRQ_HANDLED :: int where "IRQ_HANDLED = 1"

subsection \<open>Lux calculation\<close>

text \<open>The table \<open>lux_ratio\<close>, entry by entry in the order of the source.\<close>

definition lux_ratio :: "u16 list" where
  "lux_ratio = [
     0, 2, 4, 7, 11, 15, 19, 24, 29, 34, 40, 45, 51, 57, 64, 70, 77, 84, 91,
     98, 105, 112, 120, 128, 136, 144, 152, 160, 168, 177, 185, 194, 203,
     212, 221, 230, 239, 249, 258, 268, 277, 287, 297, 307, 317, 327, 337,
     347, 358, 368, 379, 390, 400]"

text \<open>
  \<open>lux_ratio[tmp]\<close>: a read inside the array gives the entry, a read past its end is
  \<open>None\<close>.
\<close>

definition lux_ratio_at :: "ulong \<Rightarrow> u16 option" where
  "lux_ratio_at i =
     (if unat i < length lux_ratio then Some (lux_ratio ! unat i) else None)"

text \<open>The operator \<open>/\<close> on two \<open>int\<close>s: the quotient is truncated towards zero.\<close>

definition int_div :: "s32 \<Rightarrow> s32 \<Rightarrow> s32" where
  "int_div a b = word_of_int (sint a sdiv sint b)"

text \<open>
  \<open>tmp = ch1 * 100 / ch0\<close>: both \<open>u16\<close> operands are promoted to \<open>int\<close>, the
  quotient is stored in an \<open>unsigned long\<close>.
\<close>

definition als_ratio :: "u16 \<Rightarrow> u16 \<Rightarrow> ulong" where
  "als_ratio ch0 ch1 = int_div ((ucast ch1 :: s32) * 100) (ucast ch0 :: s32)"

text \<open>
  \<open>tmp64 = ch0 * lux_ratio[tmp] * 5930 / 1000\<close>: \<open>ch0\<close> and the table entry are
  promoted to \<open>int\<close>, so the two products and the quotient are \<open>int\<close> arithmetic;
  only the quotient is converted (sign-extended) to \<open>u64\<close>.
\<close>

definition lux_tmp64 :: "u16 \<Rightarrow> u16 \<Rightarrow> u64" where
  "lux_tmp64 ch0 r =
     scast (int_div ((ucast ch0 :: s32) * (ucast r :: s32) * 5930) 1000)"

text \<open>
  In the other branches \<open>a * ch0 - b * ch1\<close> is \<open>int\<close> arithmetic, and its result is
  converted to \<open>unsigned long\<close> when assigned to \<open>lux\<close>; the conversion keeps the 32
  bits. The division by 100000 is unsigned.
\<close>

definition als_calculate_lux :: "u16 \<Rightarrow> u16 \<Rightarrow> ulong option" where
  "als_calculate_lux ch0 ch1 =
     (if ch0 = 0 then Some 0
      else
        let tmp = als_ratio ch0 ch1 in
        if tmp \<le> 52 then
          (case lux_ratio_at tmp of
             None \<Rightarrow> None
           | Some r \<Rightarrow>
               let tmp64 = lux_tmp64 ch0 r;
                   lux = 3150 * (ucast ch0 :: s32) - (ucast tmp64 :: ulong)
               in Some (lux div 100000))
        else if tmp \<le> 65 then
          Some ((2290 * (ucast ch0 :: s32) - 2910 * (ucast ch1 :: s32)) div 100000)
        else if tmp \<le> 80 then
          Some ((1570 * (ucast ch0 :: s32) - 1800 * (ucast ch1 :: s32)) div 100000)
        else if tmp \<le> 130 then
          Some ((338 * (ucast ch0 :: s32) - 260 * (ucast ch1 :: s32)) div 100000)
        else Some (0 div 100000))"

subsection \<open>The bus and the session\<close>

text \<open>
  The SMBus calls of the I2C core are the driver's only way to the chip. A transaction
  is recorded by its kind, its command byte and its payload. The client carries the
  transactions issued so far (oldest first) and the behaviour of the bus: the value
  the core returns for a transaction, given everything issued before it. A negative
  value is an error number, as the core returns it.
\<close>

datatype i2c_xfer =
    Write_byte u8
  | Write_byte_data u8 u8
  | Read_byte_data u8
  | Write_word_data u8 u16
  | Read_word_data u8

record i2c_client =
  reply :: "i2c_xfer list \<Rightarrow> i2c_xfer \<Rightarrow> int"
  xfers :: "i2c_xfer list"

definition i2c_smbus_xfer :: "i2c_client \<Rightarrow> i2c_xfer \<Rightarrow> int \<times> i2c_client" where
  "i2c_smbus_xfer c x = (reply c (xfers c) x, c\<lparr>xfers := xfers c @ [x]\<rparr>)"

text \<open>
  \<open>struct als_data\<close>. The mutex is left out: the model runs one call at a time.
\<close>

record als_data =
  client :: i2c_client
  power_state :: int
  thresh_low :: int
  thresh_hi :: int
  intr_en :: int

subsection \<open>I2C I/O operations\<close>

definition als_set_power_state :: "als_data \<Rightarrow> int \<Rightarrow> int \<times> als_data" where
  "als_set_power_state data state =
     (let cmd = (if state \<noteq> 0 then ALS_POWER_ON else ALS_POWER_OFF);
          (ret, c) = i2c_smbus_xfer (client data)
                       (Write_byte_data (ALS_CONTROL OR ALS_CMD) cmd);
          data = data\<lparr>client := c\<rparr>
      in if ret = 0 then (ret, data\<lparr>power_state := state\<rparr>) else (ret, data))"

definition als_get_adc_val :: "als_data \<Rightarrow> int \<Rightarrow> int \<times> als_data" where
  "als_get_adc_val data adc_number =
     (if power_state data = 0 then (- EAGAIN, data)
      else
        let flags = (ALS_CMD OR ALS_WORD)
                      OR (if adc_number \<noteq> 0 then ALS_DATA1LOW else ALS_DATA0LOW);
            (ret, c) = i2c_smbus_xfer (client data) (Read_word_data flags)
        in (ret, data\<lparr>client := c\<rparr>))"

definition als_set_thresh_low :: "als_data \<Rightarrow> int \<Rightarrow> int \<times> als_data" where
  "als_set_thresh_low data val =
     (if power_state data = 0 then (- EAGAIN, data)
      else if val > ALS_THRESH_MAX \<or> val > thresh_hi data then (- EINVAL, data)
      else
        let (ret, c) = i2c_smbus_xfer (client data)
                         (Write_word_data (ALS_THRESHLOWLOW OR ALS_CMD OR ALS_WORD)
                            (word_of_int val));
            data = data\<lparr>client := c\<rparr>
        in if ret = 0 then (ret, data\<lparr>thresh_low := val\<rparr>) else (ret, data))"

definition als_set_thresh_hi :: "als_data \<Rightarrow> int \<Rightarrow> int \<times> als_data" where
  "als_set_thresh_hi data val =
     (if power_state data = 0 then (- EAGAIN, data)
      else if val > ALS_THRESH_MAX \<or> val < thresh_low data then (- EINVAL, data)
      else
        let (ret, c) = i2c_smbus_xfer (client data)
                         (Write_word_data (ALS_THRESHHIGHLOW OR ALS_CMD OR ALS_WORD)
                            (word_of_int val));
            data = data\<lparr>client := c\<rparr>
        in if ret = 0 then (ret, data\<lparr>thresh_hi := val\<rparr>) else (ret, data))"

definition als_set_intr_state :: "als_data \<Rightarrow> int \<Rightarrow> int \<times> als_data" where
  "als_set_intr_state data state =
     (if power_state data = 0 then (- EAGAIN, data)
      else
        let cmd = (if state \<noteq> 0 then ALS_INTR_ENABLE OR ALS_THRESH_INTR else 0x00);
            (ret, c) = i2c_smbus_xfer (client data)
                         (Write_byte_data (ALS_INTERRUPT OR ALS_CMD) cmd);
            data = data\<lparr>client := c\<rparr>
        in if ret = 0 then (ret, data\<lparr>intr_en := state\<rparr>) else (ret, data))"

definition als_clear_intr :: "als_data \<Rightarrow> als_data" where
  "als_clear_intr data =
     (let (ret, c) = i2c_smbus_xfer (client data) (Write_byte (ALS_CLEAR OR ALS_CMD))
      in data\<lparr>client := c\<rparr>)"

definition als_chip_init :: "als_data \<Rightarrow> int \<times> als_data" where
  "als_chip_init data =
     (let (ret, data) = als_set_power_state data 0 in
      if ret < 0 then (ret, data)
      else
        let (ret, data) = als_set_power_state data 1 in
        if ret < 0 then (ret, data)
        else
          let (ret, c) = i2c_smbus_xfer (client data)
                           (Read_byte_data (ALS_CONTROL OR ALS_CMD));
              data = data\<lparr>client := c\<rparr>
          in
          if ret \<noteq> uint ALS_POWER_ON then (- ENODEV, data)
          else
            let (ret, data) = als_set_intr_state data 0 in
            if ret < 0 then (ret, data) else (0, data))"

subsection \<open>Industrial I/O callbacks\<close>

text \<open>
  A channel is looked at through its \<open>type\<close> and \<open>channel\<close> fields only; the types
  other than the two the driver names fall into the \<open>default\<close> case.
\<close>

datatype iio_chan_type = IIO_LIGHT | IIO_INTENSITY | IIO_CHAN_TYPE_OTHER

record iio_chan_spec =
  chan_type :: iio_chan_type
  channel :: int

text \<open>
  \<open>als_read_raw\<close> returns its return code, the contents of \<open>*val\<close> (the argument
  \<open>val\<close> when nothing is stored) and the session. The ADC values are passed to
  \<open>als_calculate_lux\<close> as \<open>u16\<close>, its result is stored as an \<open>int\<close>. The result is
  \<open>None\<close> when the lux calculation reads past the table.
\<close>

definition als_read_raw ::
  "als_data \<Rightarrow> iio_chan_spec \<Rightarrow> int \<Rightarrow> (int \<times> int \<times> als_data) option" where
  "als_read_raw data chan val =
     (case chan_type chan of
        IIO_LIGHT \<Rightarrow>
          (let (ch0, data) = als_get_adc_val data 0 in
           if ch0 < 0 then Some (ch0, val, data)
           else
             let (ch1, data) = als_get_adc_val data 1 in
             if ch1 < 0 then Some (ch1, val, data)
             else
               (case als_calculate_lux (word_of_int ch0) (word_of_int ch1) of
                  None \<Rightarrow> None
                | Some lux \<Rightarrow> Some (IIO_VAL_INT, sint lux, data)))
      | IIO_INTENSITY \<Rightarrow>
          (let (ret, data) = als_get_adc_val data (channel chan) in
           if ret < 0 then Some (ret, val, data)
           else Some (IIO_VAL_INT, ret, data))
      | IIO_CHAN_TYPE_OTHER \<Rightarrow> Some (- EINVAL, val, data))"

text \<open>
  The macro \<open>IIO_EVENT_CODE_EXTRACT_DIR\<close> belongs to the IIO core's headers; the
  callbacks that use it take it as the parameter \<open>extract_dir\<close>.
\<close>

definition als_read_thresh ::
  "(int \<Rightarrow> int) \<Rightarrow> als_data \<Rightarrow> int \<Rightarrow> int \<Rightarrow> int \<times> int \<times> als_data" where
  "als_read_thresh extract_dir data event_code val =
     (if extract_dir event_code = IIO_EV_DIR_RISING then (0, thresh_hi data, data)
      else if extract_dir event_code = IIO_EV_DIR_FALLING then (0, thresh_low data, data)
      else (- EINVAL, val, data))"

definition als_write_thresh ::
  "(int \<Rightarrow> int) \<Rightarrow> als_data \<Rightarrow> int \<Rightarrow> int \<Rightarrow> int \<times> als_data" where
  "als_write_thresh extract_dir data event_code val =
     (if extract_dir event_code = IIO_EV_DIR_RISING then als_set_thresh_hi data val
      else als_set_thresh_low data val)"

definition als_read_interrupt_config :: "als_data \<Rightarrow> int \<Rightarrow> int \<times> als_data" where
  "als_read_interrupt_config data event_code = (intr_en data, data)"

definition als_write_interrupt_config :: "als_data \<Rightarrow> int \<Rightarrow> int \<Rightarrow> int \<times> als_data" where
  "als_write_interrupt_config data event_code state = als_set_intr_state data state"

text \<open>
  The interrupt handler pushes one event to the IIO core, which keeps it outside
  \<open>struct als_data\<close>, and clears the interrupt.
\<close>

definition als_interrupt_handler :: "als_data \<Rightarrow> int \<times> als_data" where
  "als_interrupt_handler data = (IRQ_HANDLED, als_clear_intr data)"

subsection \<open>Probe and remove\<close>

text \<open>
  \<open>als_probe\<close> gets its session from \<open>iio_allocate_device\<close>, which hands out
  zero-filled storage or fails. The outcomes of the three calls into the kernel are
  parameters: \<open>alloc_ok\<close>, \<open>irq_ret\<close> (of \<open>devm_request_threaded_irq\<close>, called when
  \<open>irq\<close>, the client's interrupt line, is not 0) and \<open>reg_ret\<close> (of
  \<open>iio_device_register\<close>).
\<close>

definition als_data_alloc :: "i2c_client \<Rightarrow> als_data" where
  "als_data_alloc c =
     \<lparr>client = c, power_state = 0, thresh_low = 0, thresh_hi = 0, intr_en = 0\<rparr>"

definition als_probe ::
  "i2c_client \<Rightarrow> bool \<Rightarrow> int \<Rightarrow> int \<Rightarrow> int \<Rightarrow> int \<times> als_data option" where
  "als_probe c alloc_ok irq irq_ret reg_ret =
     (if \<not> alloc_ok then (- ENOMEM, None)
      else
        let data = als_data_alloc c;
            (ret, data) = als_chip_init data
        in
        if ret < 0 then (ret, Some (snd (als_set_power_state data 0)))
        else if irq \<noteq> 0 \<and> irq_ret \<noteq> 0
          then (irq_ret, Some (snd (als_set_power_state data 0)))
        else if reg_ret < 0 then (reg_ret, Some (snd (als_set_power_state data 0)))
        else (0, Some data))"

definition als_remove :: "als_data \<Rightarrow> int \<times> als_data" where
  "als_remove data =
     (let (ret, data) = als_set_intr_state data 0 in
      if ret = 0 then als_set_power_state data 0 else (ret, data))"

subsection \<open>The driver's entry points\<close>

text \<open>
  The calls that reach a session after a successful probe: the callbacks of
  \<open>als_info\<close>, the interrupt handler and \<open>als_remove\<close>. (\<open>als_suspend\<close> and
  \<open>als_resume\<close> take the client data pointer itself for their \<open>struct als_data\<close>,
  where \<open>als_probe\<close> stored the \<open>iio_dev\<close>; what they read and write is a matter of
  memory layout and is not part of this model.)
\<close>

datatype als_call =
    Read_raw iio_chan_spec int
  | Read_thresh int int
  | Write_thresh int int
  | Read_interrupt_config int
  | Write_interrupt_config int int
  | Interrupt
  | Remove

text \<open>The session after a call; \<open>None\<close> when the call reads past the lux table.\<close>

definition als_after :: "(int \<Rightarrow> int) \<Rightarrow> als_call \<Rightarrow> als_data \<Rightarrow> als_data option" where
  "als_after extract_dir call data =
     (case call of
        Read_raw chan val \<Rightarrow> map_option (\<lambda>r. snd (snd r)) (als_read_raw data chan val)
      | Read_thresh event_code val \<Rightarrow>
          Some (snd (snd (als_read_thresh extract_dir data event_code val)))
      | Write_thresh event_code val \<Rightarrow>
          Some (snd (als_write_thresh extract_dir data event_code val))
      | Read_interrupt_config event_code \<Rightarrow>
          Some (snd (als_read_interrupt_config data event_code))
      | Write_interrupt_config event_code state \<Rightarrow>
          Some (snd (als_write_interrupt_config data event_code state))
      | Interrupt \<Rightarrow> Some (snd (als_interrupt_handler data))
      | Remove \<Rightarrow> Some (snd (als_remove data)))"

text \<open>The two stored thresholds, and their ordering.\<close>

definition thresholds :: "als_data \<Rightarrow> int \<times> int" where
  "thresholds data = (thresh_low data, thresh_hi data)"

definition thresh_ordered :: "als_data \<Rightarrow> bool" where
  "thresh_ordered data \<longleftrightarrow> thresh_low data \<le> thresh_hi data"

subsection \<open>Concrete buses and sessions\<close>

text \<open>
  A bus that acknowledges every transaction with 0, a bus that fails every transaction
  with \<open>-EIO\<close> (-5), and sessions on them.
\<close>

definition bus_ack :: i2c_client where
  "bus_ack = \<lparr>reply = (\<lambda>h x. 0), xfers = []\<rparr>"

definition bus_eio :: i2c_client where
  "bus_eio = \<lparr>reply = (\<lambda>h x. - 5), xfers = []\<rparr>"

definition session_on :: als_data where
  "session_on = \<lparr>client = bus_ack, power_state = 1, thresh_low = 0, thresh_hi = 0,
                  intr_en = 0\<rparr>"

definition session_off :: als_data where
  "session_off = \<lparr>client = bus_ack, power_state = 0, thresh_low = 10, thresh_hi = 100,
                   intr_en = 1\<rparr>"

definition session_window :: als_data where
  "session_window = \<lparr>client = bus_ack, power_state = 1, thresh_low = 10, thresh_hi = 100,
                      intr_en = 0\<rparr>"

definition session_on_eio :: als_data where
  "session_on_eio = \<lparr>client = bus_eio, power_state = 1, thresh_low = 0, thresh_hi = 0,
                      intr_en = 1\<rparr>"

definition session_500 :: als_data where
  "session_500 = \<lparr>client = bus_ack\<lparr>xfers := [Write_word_data 0xa4 500]\<rparr>,
                  power_state = 1, thresh_low = 10, thresh_hi = 500, intr_en = 0\<rparr>"

text \<open>
  A bus with a chip that answers: every write is acknowledged, reading a byte gives
  the power-on code 0x03. \<open>session_probed\<close> is the session a probe leaves on it.
\<close>

fun chip_reply :: "i2c_xfer list \<Rightarrow> i2c_xfer \<Rightarrow> int" where
  "chip_reply h (Read_byte_data command) = 3"
| "chip_reply h x = 0"

definition bus_chip :: i2c_client where
  "bus_chip = \<lparr>reply = chip_reply, xfers = []\<rparr>"

definition session_probed :: als_data where
  "session_probed =
     \<lparr>client = bus_chip\<lparr>xfers := [Write_byte_data 0x80 0, Write_byte_data 0x80 3,
                                    Read_byte_data 0x80, Write_byte_data 0x86 0]\<rparr>,
      power_state = 1, thresh_low = 0, thresh_hi = 0, intr_en = 0\<rparr>"

text \<open>
  One way to lay out an event code, for concrete calls of the threshold callbacks: the
  direction in bits 24 to 27.
\<close>

definition extract_dir_24 :: "int \<Rightarrow> int" where
  "extract_dir_24 code = (code div 2 ^ 24) mod 16"

section \<open>Properties of the lux calculation\<close>

lemmas lux_defs =
  als_calculate_lux_def als_ratio_def lux_tmp64_def lux_ratio_at_def lux_ratio_def
  int_div_def signed_divide_int_def

lemmas reg_defs =
  ALS_CMD_def ALS_WORD_def ALS_CLEAR_def ALS_CONTROL_def ALS_THRESHLOWLOW_def
  ALS_THRESHHIGHLOW_def ALS_INTERRUPT_def ALS_DATA0LOW_def ALS_DATA1LOW_def
  ALS_POWER_ON_def ALS_POWER_OFF_def ALS_INTR_ENABLE_def ALS_THRESH_INTR_def
  ALS_THRESH_MAX_def EAGAIN_def EINVAL_def ENODEV_def ENOMEM_def

lemmas io_defs =
  als_set_power_state_def als_get_adc_val_def als_set_thresh_low_def
  als_set_thresh_hi_def als_set_intr_state_def i2c_smbus_xfer_def

lemmas session_defs =
  session_on_def session_off_def session_window_def session_on_eio_def bus_ack_def
  bus_eio_def bus_chip_def session_probed_def session_500_def

subsection \<open>Words that hold small numbers\<close>

lemma u16_bound: "unat (w :: u16) < 65536"
  using unsigned_less [of w, where ?'a = nat] by simp

lemma sint_small:
  fixes n :: nat
  assumes "n < 2 ^ 31"
  shows "sint (word_of_nat n :: 32 word) = int n"
proof -
  have "signed_take_bit 31 (int n) = int n"
    by (rule signed_take_bit_int_eq_self) (use assms in simp_all)
  then show ?thesis by (simp add: signed_of_nat)
qed

lemma unat_small:
  fixes n :: nat
  assumes "n < 2 ^ 32"
  shows "unat (word_of_nat n :: 32 word) = n"
  using assms by (simp add: unat_of_nat)

lemma sdiv_nat: "int a sdiv int b = int (a div b)"
  by (simp add: signed_divide_int_def zdiv_int sgn_if)

lemma int_div_nat:
  assumes "a < 2 ^ 31" and "b < 2 ^ 31"
  shows "int_div (word_of_nat a) (word_of_nat b) = word_of_nat (a div b)"
  using assms by (simp add: int_div_def sint_small sdiv_nat)

subsection \<open>The ratio and the table\<close>

lemma als_ratio_eq: "als_ratio ch0 ch1 = word_of_nat (unat ch1 * 100 div unat ch0)"
proof -
  have b0: "unat ch0 < 2 ^ 31" and b1: "unat ch1 * 100 < 2 ^ 31"
    using u16_bound [of ch0] u16_bound [of ch1] by simp_all
  have "als_ratio ch0 ch1 = int_div (word_of_nat (unat ch1 * 100)) (word_of_nat (unat ch0))"
    by (simp add: als_ratio_def)
  then show ?thesis using int_div_nat [OF b1 b0] by simp
qed

lemma als_ratio_unat: "unat (als_ratio ch0 ch1) = unat ch1 * 100 div unat ch0"
proof -
  have "unat ch1 * 100 div unat ch0 \<le> unat ch1 * 100" by (rule div_le_dividend)
  also have "\<dots> < 2 ^ 32" using u16_bound [of ch1] by simp
  finally show ?thesis by (simp add: als_ratio_eq unat_small)
qed

lemma lux_ratio_at_in_bounds:
  assumes "i \<le> 52"
  shows "lux_ratio_at i = Some (lux_ratio ! unat i)"
proof -
  have "unat i \<le> 52" using assms by (simp add: word_le_nat_alt)
  then show ?thesis by (simp add: lux_ratio_at_def lux_ratio_def)
qed

lemma als_calculate_lux_Some: "\<exists>lux. als_calculate_lux ch0 ch1 = Some lux"
  by (simp add: als_calculate_lux_def Let_def lux_ratio_at_in_bounds)

lemma lux_3150: "unat (3150 * (ucast (ch0 :: u16) :: s32)) = 3150 * unat ch0"
proof -
  have "3150 * unat ch0 < 2 ^ 32" using u16_bound [of ch0] by simp
  then have "unat (word_of_nat (3150 * unat ch0) :: 32 word) = 3150 * unat ch0"
    by (rule unat_small)
  then show ?thesis by simp
qed

lemma word32_eqI: "unat (a :: 32 word) = unat b \<Longrightarrow> a = b"
  by (simp add: word_eq_iff_unsigned [where ?'a = nat])

lemma lux_3150_div:
  "(3150 * (ucast (ch0 :: u16) :: s32)) div 100000 = word_of_nat (3150 * unat ch0 div 100000)"
proof (rule word32_eqI)
  have "3150 * unat ch0 div 100000 \<le> 3150 * unat ch0" by (rule div_le_dividend)
  also have "\<dots> < 2 ^ 32" using u16_bound [of ch0] by simp
  finally have "unat (word_of_nat (3150 * unat ch0 div 100000) :: 32 word)
      = 3150 * unat ch0 div 100000"
    by (rule unat_small)
  then show "unat ((3150 * (ucast ch0 :: s32)) div 100000)
      = unat (word_of_nat (3150 * unat ch0 div 100000) :: 32 word)"
    by (simp add: unat_div lux_3150)
qed

lemma als_calculate_lux_dark_ir:
  assumes "ch0 \<noteq> 0"
  shows "als_calculate_lux ch0 0 = Some ((3150 * ucast ch0) div 100000)"
proof -
  have r: "als_ratio ch0 0 = 0" by (simp add: als_ratio_eq)
  have t: "lux_ratio_at 0 = Some 0" by (simp add: lux_ratio_at_def lux_ratio_def)
  have z: "lux_tmp64 ch0 0 = 0" by (simp add: lux_tmp64_def int_div_def)
  show ?thesis using assms by (simp add: als_calculate_lux_def r t z)
qed

text \<open>
  As long as the product \<open>ch0 * lux_ratio[tmp] * 5930\<close> stays below \<open>2^31\<close>, the
  \<open>int\<close> arithmetic is exact and \<open>tmp64\<close> holds the mathematical quotient.
\<close>

lemma lux_tmp64_exact:
  assumes "unat ch0 * unat r * 5930 < 2 ^ 31"
  shows "unat (lux_tmp64 ch0 r) = unat ch0 * unat r * 5930 div 1000"
proof -
  let ?n = "unat ch0 * unat r * 5930"
  have q: "?n div 1000 < 2 ^ 31"
    using assms div_le_dividend [of ?n 1000] by linarith
  have "(ucast ch0 :: s32) * ucast r * 5930 = word_of_nat ?n" by simp
  then have "int_div ((ucast ch0 :: s32) * ucast r * 5930) 1000 = word_of_nat (?n div 1000)"
    using int_div_nat [of ?n 1000] assms by simp
  then have "lux_tmp64 ch0 r = word_of_int (int (?n div 1000))"
    using sint_small [OF q] by (simp add: lux_tmp64_def scast_eq)
  then have "lux_tmp64 ch0 r = (word_of_nat (?n div 1000) :: 64 word)" by simp
  moreover have "?n div 1000 < 2 ^ 64" using q by simp
  ultimately show ?thesis by (simp add: unat_of_nat)
qed

subsection \<open>Claims about the lux calculation\<close>

text \<open>
  Claim C1. The claim: for \<open>ch0 > 0\<close> and ratio at most 52 the second term of the table
  branch, \<open>floor(ch0 * lux_ratio[ratio] * 5930 / 1000)\<close>, is computed with a 64-bit-safe
  intermediate and equals its mathematical value, also for channel values near 65535.
  The code multiplies in \<open>int\<close> and widens only the quotient. At \<open>ch0 = 65535\<close>,
  \<open>ch1 = 32767\<close> the ratio is 49 and the table entry 368; the mathematical value of the
  term is 143013098, the code's \<open>tmp64\<close> is 1279177, and the function returns 2051
  where the formula gives 634.
\<close>

theorem lux_tmp64_int_overflow:
  "als_ratio 65535 32767 = 49 \<and> lux_ratio_at 49 = Some 368 \<and>
   (65535 * 368 * 5930 div 1000 :: nat) = 143013098 \<and>
   unat (lux_tmp64 65535 368) = 1279177 \<and>
   als_calculate_lux 65535 32767 = Some 2051 \<and>
   ((3150 * 65535 - 65535 * 368 * 5930 div 1000) div 100000 :: nat) = 634"
  by (simp add: lux_defs)

text \<open>
  Claim C2, as stated: the table has exactly 52 entries, so a ratio of exactly 52 reads
  index 52 outside the table. It fails: the table does not have 52 entries, and at
  \<open>ch0 = 100\<close>, \<open>ch1 = 52\<close> the ratio is 52 and the read at index 52 is inside the table.
\<close>

theorem lux_ratio_52_entries_counterexample:
  "length lux_ratio \<noteq> 52 \<and> (100 :: u16) \<noteq> 0 \<and> als_ratio 100 52 = 52 \<and>
   unat (als_ratio 100 52) < length lux_ratio \<and>
   lux_ratio_at (als_ratio 100 52) = Some 400"
  by (simp add: lux_defs)

text \<open>
  Claim C2, amended: the table has exactly 53 entries (indices 0 to 52); every read of
  the table branch (ratio at most 52) is inside the table, and for every input pair with
  \<open>ch0 > 0\<close> whose ratio \<open>floor(ch1 * 100 / ch0)\<close> is exactly 52 the branch reads index
  52, the last entry, 400.
\<close>

theorem lux_ratio_read_in_bounds:
  "length lux_ratio = 53 \<and>
   (als_ratio ch0 ch1 \<le> 52 \<longrightarrow>
      unat (als_ratio ch0 ch1) < length lux_ratio \<and>
      lux_ratio_at (als_ratio ch0 ch1) \<noteq> None) \<and>
   (ch0 \<noteq> 0 \<and> unat ch1 * 100 div unat ch0 = 52 \<longrightarrow>
      als_ratio ch0 ch1 = 52 \<and> lux_ratio_at (als_ratio ch0 ch1) = Some 400)"
proof -
  have a: "length lux_ratio = 53" by (simp add: lux_ratio_def)
  have b: "unat (als_ratio ch0 ch1) < length lux_ratio \<and>
           lux_ratio_at (als_ratio ch0 ch1) \<noteq> None" if "als_ratio ch0 ch1 \<le> 52"
  proof -
    have "unat (als_ratio ch0 ch1) \<le> 52" using that by (simp add: word_le_nat_alt)
    then show ?thesis by (simp add: a lux_ratio_at_def)
  qed
  have c: "als_ratio ch0 ch1 = 52 \<and> lux_ratio_at (als_ratio ch0 ch1) = Some 400"
    if "unat ch1 * 100 div unat ch0 = 52"
    using that by (simp add: als_ratio_eq lux_ratio_at_def lux_ratio_def)
  show ?thesis using a b c by blast
qed

theorem lux_ratio_read_in_bounds_witness:
  "length lux_ratio = 53 \<and> (100 :: u16) \<noteq> 0 \<and>
   unat (52 :: u16) * 100 div unat (100 :: u16) = 52 \<and>
   als_ratio 100 52 = 52 \<and> als_ratio 100 52 \<le> 52 \<and>
   unat (als_ratio 100 52) < length lux_ratio \<and>
   lux_ratio_at (als_ratio 100 52) = Some 400"
proof -
  have h: "(100 :: u16) \<noteq> 0 \<and> unat (52 :: u16) * 100 div unat (100 :: u16) = 52"
    by simp
  with lux_ratio_read_in_bounds [of 100 52]
  have r: "als_ratio 100 52 = 52 \<and> lux_ratio_at (als_ratio 100 52) = Some 400"
    by blast
  then have "als_ratio 100 52 \<le> 52" by simp
  with lux_ratio_read_in_bounds [of 100 52]
  have "length lux_ratio = 53 \<and> unat (als_ratio 100 52) < length lux_ratio"
    by blast
  with h r show ?thesis by auto
qed

text \<open>
  Claim C3, as stated: \<open>computeLux(1000, 300)\<close> has ratio 30, takes the table branch
  and returns the value obtained from \<open>lux_ratio[30] = 268\<close>, that is
  \<open>floor((3150*1000 - floor(1000*268*5930/1000)) / 100000)\<close>. It fails: entry 30 of the
  table is not 268, and the function does not return that value.
\<close>

theorem als_calculate_lux_1000_300_counterexample:
  "lux_ratio_at 30 \<noteq> Some 268 \<and>
   als_calculate_lux 1000 300
     \<noteq> Some (word_of_nat ((3150 * 1000 - 1000 * 268 * 5930 div 1000) div 100000))"
  by (simp add: lux_defs)

text \<open>
  Claim C3, amended: \<open>computeLux(1000, 300)\<close> has ratio 30, takes the table branch and
  returns the value obtained from \<open>lux_ratio[30] = 185\<close>, that is
  \<open>floor((3150*1000 - floor(1000*185*5930/1000)) / 100000) = 20\<close>.
\<close>

theorem als_calculate_lux_1000_300:
  "als_ratio 1000 300 = 30 \<and> als_ratio 1000 300 \<le> 52 \<and> lux_ratio_at 30 = Some 185 \<and>
   als_calculate_lux 1000 300
     = Some (word_of_nat ((3150 * 1000 - 1000 * 185 * 5930 div 1000) div 100000)) \<and>
   als_calculate_lux 1000 300 = Some 20"
  by (simp add: lux_defs)

text \<open>
  Claim C8. \<open>als_calculate_lux\<close> is a function of its two arguments alone and returns a
  value on all of them (it never reads past the table); \<open>computeLux(0, ch1) = 0\<close> for
  every \<open>ch1\<close>; and for every \<open>ch0 > 0\<close>, \<open>computeLux(ch0, 0)\<close> has ratio 0, takes the
  table branch with \<open>lux_ratio[0] = 0\<close> and returns \<open>floor(3150 * ch0 / 100000)\<close>.
\<close>

theorem als_calculate_lux_total:
  "als_calculate_lux ch0 ch1 \<noteq> None \<and>
   als_calculate_lux 0 ch1 = Some 0 \<and>
   (ch0 \<noteq> 0 \<longrightarrow>
      als_ratio ch0 0 = 0 \<and> als_ratio ch0 0 \<le> 52 \<and> lux_ratio_at 0 = Some 0 \<and>
      als_calculate_lux ch0 0 = Some (word_of_nat (3150 * unat ch0 div 100000)))"
proof -
  have a: "als_calculate_lux ch0 ch1 \<noteq> None"
    using als_calculate_lux_Some [of ch0 ch1] by auto
  have b: "als_calculate_lux 0 ch1 = Some 0" by (simp add: als_calculate_lux_def)
  have c: "als_ratio ch0 0 = 0" by (simp add: als_ratio_eq)
  have d: "lux_ratio_at 0 = Some 0" by (simp add: lux_ratio_at_def lux_ratio_def)
  show ?thesis
    using a b c d als_calculate_lux_dark_ir [of ch0] by (simp add: lux_3150_div)
qed

theorem als_calculate_lux_total_witness:
  "(60000 :: u16) \<noteq> 0 \<and> als_ratio 60000 0 = 0 \<and> lux_ratio_at 0 = Some 0 \<and>
   als_calculate_lux 60000 0 = Some 1890 \<and> als_calculate_lux 0 9 = Some 0 \<and>
   als_calculate_lux 60000 9 \<noteq> None"
  using als_calculate_lux_total [of 60000 9] by simp

text \<open>
  Claim C9. There are inputs inside a branch's domain, here \<open>80 < ratio \<le> 130\<close>, for
  which the subtracted term exceeds the minuend (\<open>338 * ch0 < 260 * ch1\<close>), so that the
  value stored in the unsigned \<open>lux\<close> has wrapped around (4294965996) and the function
  returns 42949 where the formula's value is below zero: \<open>ch0 = 1000\<close>, \<open>ch1 = 1305\<close>.
\<close>

theorem als_calculate_lux_wraps:
  "\<exists>ch0 ch1. 80 < als_ratio ch0 ch1 \<and> als_ratio ch0 ch1 \<le> 130 \<and>
     338 * uint ch0 < 260 * uint ch1 \<and>
     338 * (ucast ch0 :: s32) - 260 * (ucast ch1 :: s32) = 4294965996 \<and>
     als_calculate_lux ch0 ch1 = Some 42949"
proof -
  have "80 < als_ratio 1000 1305 \<and> als_ratio 1000 1305 \<le> 130 \<and>
     338 * uint (1000 :: u16) < 260 * uint (1305 :: u16) \<and>
     338 * (ucast (1000 :: u16) :: s32) - 260 * (ucast (1305 :: u16) :: s32) = 4294965996 \<and>
     als_calculate_lux 1000 1305 = Some 42949"
    by (simp add: lux_defs)
  then show ?thesis by blast
qed

section \<open>Properties of the session\<close>

subsection \<open>Calls that leave the thresholds alone\<close>

lemma als_set_power_state_thresholds:
  "thresholds (snd (als_set_power_state data state)) = thresholds data"
  by (simp add: als_set_power_state_def i2c_smbus_xfer_def thresholds_def Let_def)

lemma als_get_adc_val_thresholds:
  "thresholds (snd (als_get_adc_val data n)) = thresholds data"
  by (simp add: als_get_adc_val_def i2c_smbus_xfer_def thresholds_def Let_def)

lemma als_set_intr_state_thresholds:
  "thresholds (snd (als_set_intr_state data state)) = thresholds data"
  by (simp add: als_set_intr_state_def i2c_smbus_xfer_def thresholds_def Let_def)

lemma als_clear_intr_thresholds:
  "thresholds (als_clear_intr data) = thresholds data"
  by (simp add: als_clear_intr_def i2c_smbus_xfer_def thresholds_def Let_def)

lemma als_chip_init_thresholds:
  "thresholds (snd (als_chip_init data)) = thresholds data"
proof -
  obtain r1 d1 where s1: "als_set_power_state data 0 = (r1, d1)" by fastforce
  obtain r2 d2 where s2: "als_set_power_state d1 1 = (r2, d2)" by fastforce
  obtain r3 c3 where s3:
    "i2c_smbus_xfer (client d2) (Read_byte_data (ALS_CONTROL OR ALS_CMD)) = (r3, c3)"
    by fastforce
  obtain r4 d4 where s4: "als_set_intr_state (d2\<lparr>client := c3\<rparr>) 0 = (r4, d4)" by fastforce
  have t1: "thresholds d1 = thresholds data"
    using als_set_power_state_thresholds [of data 0] s1 by simp
  have t2: "thresholds d2 = thresholds d1"
    using als_set_power_state_thresholds [of d1 1] s2 by simp
  have t3: "thresholds (d2\<lparr>client := c3\<rparr>) = thresholds d2"
    by (simp add: thresholds_def)
  have t4: "thresholds d4 = thresholds (d2\<lparr>client := c3\<rparr>)"
    using als_set_intr_state_thresholds [of "d2\<lparr>client := c3\<rparr>" 0] s4 by simp
  show ?thesis
    using t1 t2 t3 t4 by (simp add: als_chip_init_def s1 s2 s3 s4 Let_def)
qed

lemma als_remove_thresholds:
  "thresholds (snd (als_remove data)) = thresholds data"
proof -
  obtain r1 d1 where s1: "als_set_intr_state data 0 = (r1, d1)" by fastforce
  have t1: "thresholds d1 = thresholds data"
    using als_set_intr_state_thresholds [of data 0] s1 by simp
  show ?thesis
    using t1 als_set_power_state_thresholds [of d1 0] by (simp add: als_remove_def s1)
qed

lemma als_probe_thresholds:
  assumes "als_probe c alloc_ok irq irq_ret reg_ret = (ret, Some data)"
  shows "thresholds data = (0, 0)"
proof -
  obtain r1 d1 where s1: "als_chip_init (als_data_alloc c) = (r1, d1)" by fastforce
  have t0: "thresholds (als_data_alloc c) = (0, 0)"
    by (simp add: thresholds_def als_data_alloc_def)
  have t1: "thresholds d1 = (0, 0)"
    using als_chip_init_thresholds [of "als_data_alloc c"] s1 t0 by simp
  have t2: "thresholds (snd (als_set_power_state d1 0)) = (0, 0)"
    using als_set_power_state_thresholds [of d1 0] t1 by simp
  show ?thesis
    using assms t1 t2 by (auto simp add: als_probe_def s1 split: if_splits)
qed

lemma als_read_raw_thresholds:
  assumes "als_read_raw data chan val = Some (ret, val', data')"
  shows "thresholds data' = thresholds data"
proof (cases "chan_type chan")
  case IIO_LIGHT
  obtain r0 d0 where s0: "als_get_adc_val data 0 = (r0, d0)" by fastforce
  obtain r1 d1 where s1: "als_get_adc_val d0 1 = (r1, d1)" by fastforce
  have t0: "thresholds d0 = thresholds data"
    using als_get_adc_val_thresholds [of data 0] s0 by simp
  have t1: "thresholds d1 = thresholds d0"
    using als_get_adc_val_thresholds [of d0 1] s1 by simp
  show ?thesis
    using assms IIO_LIGHT t0 t1
    by (auto simp add: als_read_raw_def s0 s1 split: if_splits option.splits)
next
  case IIO_INTENSITY
  obtain r0 d0 where s0: "als_get_adc_val data (channel chan) = (r0, d0)" by fastforce
  have t0: "thresholds d0 = thresholds data"
    using als_get_adc_val_thresholds [of data "channel chan"] s0 by simp
  show ?thesis
    using assms IIO_INTENSITY t0 by (auto simp add: als_read_raw_def s0 split: if_splits)
next
  case IIO_CHAN_TYPE_OTHER
  then show ?thesis using assms by (simp add: als_read_raw_def)
qed

lemma als_read_raw_Some: "als_read_raw data chan val \<noteq> None"
proof (cases "chan_type chan")
  case IIO_LIGHT
  obtain r0 d0 where s0: "als_get_adc_val data 0 = (r0, d0)" by fastforce
  obtain r1 d1 where s1: "als_get_adc_val d0 1 = (r1, d1)" by fastforce
  obtain lux where l: "als_calculate_lux (word_of_int r0) (word_of_int r1) = Some lux"
    using als_calculate_lux_Some by blast
  show ?thesis using IIO_LIGHT by (simp add: als_read_raw_def s0 s1 l)
next
  case IIO_INTENSITY
  obtain r0 d0 where s0: "als_get_adc_val data (channel chan) = (r0, d0)" by fastforce
  show ?thesis using IIO_INTENSITY by (simp add: als_read_raw_def s0)
next
  case IIO_CHAN_TYPE_OTHER
  then show ?thesis by (simp add: als_read_raw_def)
qed

subsection \<open>Threshold writes keep the ordering\<close>

lemma als_set_thresh_low_ordered:
  "thresh_ordered data \<Longrightarrow> thresh_ordered (snd (als_set_thresh_low data v))"
  by (simp add: als_set_thresh_low_def i2c_smbus_xfer_def thresh_ordered_def Let_def)

lemma als_set_thresh_hi_ordered:
  "thresh_ordered data \<Longrightarrow> thresh_ordered (snd (als_set_thresh_hi data v))"
  by (simp add: als_set_thresh_hi_def i2c_smbus_xfer_def thresh_ordered_def Let_def)

lemma thresh_ordered_thresholds:
  "thresholds a = thresholds b \<Longrightarrow> thresh_ordered a = thresh_ordered b"
  by (simp add: thresholds_def thresh_ordered_def)

lemma als_after_ordered:
  assumes "thresh_ordered data" and "als_after ex call data = Some data'"
  shows "thresh_ordered data'"
proof (cases call)
  case (Read_raw chan val)
  with assms(2) obtain r v' where "als_read_raw data chan val = Some (r, v', data')"
    by (auto simp add: als_after_def)
  then have "thresholds data' = thresholds data" by (rule als_read_raw_thresholds)
  with assms(1) show ?thesis using thresh_ordered_thresholds [of data' data] by simp
next
  case (Read_thresh code val)
  with assms show ?thesis by (auto simp add: als_after_def als_read_thresh_def)
next
  case (Write_thresh code val)
  with assms(2) have "data' = snd (als_set_thresh_hi data val)
      \<or> data' = snd (als_set_thresh_low data val)"
    by (simp add: als_after_def als_write_thresh_def split: if_splits)
  then show ?thesis
    using als_set_thresh_low_ordered [OF assms(1), of val]
      als_set_thresh_hi_ordered [OF assms(1), of val]
    by blast
next
  case (Read_interrupt_config code)
  with assms show ?thesis by (auto simp add: als_after_def als_read_interrupt_config_def)
next
  case (Write_interrupt_config code state)
  with assms show ?thesis
    using thresh_ordered_thresholds [OF als_set_intr_state_thresholds [of data state]]
    by (auto simp add: als_after_def als_write_interrupt_config_def)
next
  case Interrupt
  with assms show ?thesis
    using thresh_ordered_thresholds [OF als_clear_intr_thresholds [of data]]
    by (auto simp add: als_after_def als_interrupt_handler_def)
next
  case Remove
  with assms show ?thesis
    using thresh_ordered_thresholds [OF als_remove_thresholds [of data]]
    by (auto simp add: als_after_def)
qed

lemma als_after_Some: "als_after ex call data \<noteq> None"
  using als_read_raw_Some by (cases call) (simp_all add: als_after_def)

subsection \<open>Claims about the session\<close>

text \<open>
  Claim C5. Each operation that needs the device to be sampling (\<open>als_get_adc_val\<close>,
  \<open>als_set_thresh_low\<close>, \<open>als_set_thresh_hi\<close>, \<open>als_set_intr_state\<close>), called with
  \<open>power_state\<close> equal to 0, returns \<open>-EAGAIN\<close> at once, issues no bus transaction and
  leaves the whole session as it was.
\<close>

theorem power_off_not_ready:
  assumes "power_state data = 0"
  shows "als_get_adc_val data n = (- EAGAIN, data) \<and>
         als_set_thresh_low data v = (- EAGAIN, data) \<and>
         als_set_thresh_hi data v = (- EAGAIN, data) \<and>
         als_set_intr_state data s = (- EAGAIN, data) \<and>
         xfers (client (snd (als_get_adc_val data n))) = xfers (client data) \<and>
         xfers (client (snd (als_set_thresh_low data v))) = xfers (client data) \<and>
         xfers (client (snd (als_set_thresh_hi data v))) = xfers (client data) \<and>
         xfers (client (snd (als_set_intr_state data s))) = xfers (client data)"
  using assms
  by (simp add: als_get_adc_val_def als_set_thresh_low_def als_set_thresh_hi_def
      als_set_intr_state_def)

theorem power_off_not_ready_witness:
  "power_state session_off = 0 \<and>
   als_get_adc_val session_off 1 = (- 11, session_off) \<and>
   als_set_thresh_low session_off 20 = (- 11, session_off) \<and>
   als_set_thresh_hi session_off 200 = (- 11, session_off) \<and>
   als_set_intr_state session_off 0 = (- 11, session_off) \<and>
   xfers (client session_off) = []"
proof -
  have p: "power_state session_off = 0" by (simp add: session_off_def)
  have x: "xfers (client session_off) = []" by (simp add: session_off_def bus_ack_def)
  show ?thesis
    using power_off_not_ready [OF p, of 1 20 0] power_off_not_ready [OF p, of 1 200 0] p x
    by (simp add: EAGAIN_def)
qed

text \<open>
  What the two setters reject while the device is powered: exactly the values above
  65535 and the values on the wrong side of the other stored threshold. A rejected
  call returns \<open>-EINVAL\<close> and leaves the session and the bus as they were; every other
  value, the negative ones among them, goes out to the bus.
\<close>

lemma als_set_thresh_low_rejects_iff:
  assumes "power_state data \<noteq> 0"
  shows "als_set_thresh_low data v = (- EINVAL, data) \<longleftrightarrow> v > 65535 \<or> v > thresh_hi data"
proof
  assume r: "als_set_thresh_low data v = (- EINVAL, data)"
  show "v > 65535 \<or> v > thresh_hi data"
  proof (rule ccontr)
    assume n: "\<not> (v > 65535 \<or> v > thresh_hi data)"
    have "xfers (client (snd (als_set_thresh_low data v))) \<noteq> xfers (client data)"
      using assms n
      by (simp add: als_set_thresh_low_def i2c_smbus_xfer_def ALS_THRESH_MAX_def Let_def)
    with r show False by simp
  qed
next
  assume "v > 65535 \<or> v > thresh_hi data"
  then show "als_set_thresh_low data v = (- EINVAL, data)"
    using assms by (simp add: als_set_thresh_low_def ALS_THRESH_MAX_def)
qed

lemma als_set_thresh_hi_rejects_iff:
  assumes "power_state data \<noteq> 0"
  shows "als_set_thresh_hi data v = (- EINVAL, data) \<longleftrightarrow> v > 65535 \<or> v < thresh_low data"
proof
  assume r: "als_set_thresh_hi data v = (- EINVAL, data)"
  show "v > 65535 \<or> v < thresh_low data"
  proof (rule ccontr)
    assume n: "\<not> (v > 65535 \<or> v < thresh_low data)"
    have "xfers (client (snd (als_set_thresh_hi data v))) \<noteq> xfers (client data)"
      using assms n
      by (simp add: als_set_thresh_hi_def i2c_smbus_xfer_def ALS_THRESH_MAX_def Let_def)
    with r show False by simp
  qed
next
  assume "v > 65535 \<or> v < thresh_low data"
  then show "als_set_thresh_hi data v = (- EINVAL, data)"
    using assms by (simp add: als_set_thresh_hi_def ALS_THRESH_MAX_def)
qed

text \<open>
  Claim C4. The claim: while powered on, both threshold setters fail with \<open>-EINVAL\<close>,
  without bus I/O and without a change of state, for every value outside [0, 65535], in
  particular for every negative value, and for every value on the wrong side of the
  other threshold. The setters compare the signed value with \<open>ALS_THRESH_MAX\<close> and with
  the other threshold only, and miss the lower bound. On a powered session with both
  thresholds 0, \<open>als_set_thresh_low\<close> accepts -1: it returns 0, sends 0xffff to the low
  threshold register and stores -1, so the chip's low threshold lies above its high
  one while the stored pair looks ordered. After a low threshold of -5 has been stored,
  \<open>als_set_thresh_hi\<close> accepts -3 in the same way.
\<close>

theorem als_set_thresh_negative_accepted:
  "power_state session_on = 1 \<and> thresh_low session_on = 0 \<and> thresh_hi session_on = 0 \<and>
   (- 1 :: int) < 0 \<and>
   als_set_thresh_low session_on (- 1)
     = (0, session_on\<lparr>client := bus_ack\<lparr>xfers := [Write_word_data 0xa2 0xffff]\<rparr>,
                        thresh_low := - 1\<rparr>) \<and>
   als_set_thresh_low session_on (- 1) \<noteq> (- EINVAL, session_on) \<and>
   (- 3 :: int) < 0 \<and>
   thresh_low (snd (als_set_thresh_low session_on (- 5))) = - 5 \<and>
   fst (als_set_thresh_hi (snd (als_set_thresh_low session_on (- 5))) (- 3)) = 0 \<and>
   thresh_hi (snd (als_set_thresh_hi (snd (als_set_thresh_low session_on (- 5))) (- 3)))
     = - 3 \<and>
   xfers (client (snd (als_set_thresh_hi (snd (als_set_thresh_low session_on (- 5))) (- 3))))
     = [Write_word_data 0xa2 0xfffb, Write_word_data 0xa4 0xfffd]"
  by (simp add: io_defs session_defs reg_defs)

text \<open>
  Claim C6. The ordering \<open>thresh_low \<le> thresh_hi\<close> holds in the freshly allocated
  session and in every session a probe leaves behind, and every call into the driver
  returns and keeps it. A threshold write that would break it is rejected with a
  negative return code and leaves the session, both stored thresholds included, as it
  was.
\<close>

theorem thresh_ordered_invariant:
  "thresh_ordered (als_data_alloc c) \<and>
   (als_probe c alloc_ok irq irq_ret reg_ret = (ret, Some data0) \<longrightarrow> thresh_ordered data0) \<and>
   als_after extract_dir call data \<noteq> None \<and>
   (thresh_ordered data \<and> als_after extract_dir call data = Some data' \<longrightarrow>
      thresh_ordered data') \<and>
   (v > thresh_hi data \<longrightarrow>
      fst (als_set_thresh_low data v) < 0 \<and> snd (als_set_thresh_low data v) = data) \<and>
   (v < thresh_low data \<longrightarrow>
      fst (als_set_thresh_hi data v) < 0 \<and> snd (als_set_thresh_hi data v) = data)"
proof -
  have a: "thresh_ordered (als_data_alloc c)"
    by (simp add: thresh_ordered_def als_data_alloc_def)
  have b: "thresh_ordered data0"
    if "als_probe c alloc_ok irq irq_ret reg_ret = (ret, Some data0)"
    using als_probe_thresholds [OF that] by (simp add: thresholds_def thresh_ordered_def)
  have d: "thresh_ordered data'"
    if "thresh_ordered data" and "als_after extract_dir call data = Some data'"
    using that by (rule als_after_ordered)
  have e: "fst (als_set_thresh_low data v) < 0 \<and> snd (als_set_thresh_low data v) = data"
    if "v > thresh_hi data"
    using that by (simp add: als_set_thresh_low_def EAGAIN_def EINVAL_def)
  have f: "fst (als_set_thresh_hi data v) < 0 \<and> snd (als_set_thresh_hi data v) = data"
    if "v < thresh_low data"
    using that by (simp add: als_set_thresh_hi_def EAGAIN_def EINVAL_def)
  show ?thesis using a b d e f als_after_Some [of extract_dir call data] by blast
qed

lemma als_probe_bus_chip: "als_probe bus_chip True 0 0 0 = (0, Some session_probed)"
  by (simp add: als_probe_def als_data_alloc_def als_chip_init_def io_defs session_defs
      reg_defs Let_def)

lemma als_after_write_500:
  "als_after extract_dir_24 (Write_thresh 16777216 500) session_window = Some session_500"
  by (simp add: als_after_def als_write_thresh_def extract_dir_24_def IIO_EV_DIR_RISING_def
      io_defs session_defs reg_defs)

theorem thresh_ordered_invariant_witness:
  "als_probe bus_chip True 0 0 0 = (0, Some session_probed) \<and>
   thresh_ordered session_probed \<and>
   thresh_ordered session_window \<and>
   als_after extract_dir_24 (Write_thresh 16777216 500) session_window = Some session_500 \<and>
   thresh_ordered session_500 \<and>
   150 > thresh_hi session_window \<and>
   fst (als_set_thresh_low session_window 150) < 0 \<and>
   snd (als_set_thresh_low session_window 150) = session_window \<and>
   5 < thresh_low session_window \<and>
   fst (als_set_thresh_hi session_window 5) < 0 \<and>
   snd (als_set_thresh_hi session_window 5) = session_window"
proof -
  have o: "thresh_ordered session_window"
    by (simp add: thresh_ordered_def session_window_def)
  have h: "150 > thresh_hi session_window" and l: "5 < thresh_low session_window"
    by (simp_all add: session_window_def)
  have p: "thresh_ordered session_probed"
    using thresh_ordered_invariant
      [of bus_chip True 0 0 0 0 session_probed extract_dir_24 Interrupt session_window]
      als_probe_bus_chip
    by blast
  have w: "thresh_ordered session_500"
    using thresh_ordered_invariant
      [of bus_chip True 0 0 0 0 session_probed extract_dir_24
        "Write_thresh 16777216 500" session_window session_500]
      o als_after_write_500
    by blast
  have lo: "fst (als_set_thresh_low session_window 150) < 0 \<and>
            snd (als_set_thresh_low session_window 150) = session_window"
    using thresh_ordered_invariant
      [of bus_chip True 0 0 0 0 session_probed extract_dir_24 Interrupt session_window
        session_window 150]
      h
    by blast
  have hi: "fst (als_set_thresh_hi session_window 5) < 0 \<and>
            snd (als_set_thresh_hi session_window 5) = session_window"
    using thresh_ordered_invariant
      [of bus_chip True 0 0 0 0 session_probed extract_dir_24 Interrupt session_window
        session_window 5]
      l
    by blast
  show ?thesis using o h l p w lo hi als_probe_bus_chip als_after_write_500 by blast
qed

text \<open>
  Claim C7. The claim: teardown at detach always both disables the interrupt and turns
  the power off, whatever the power state and whether or not the interrupt-disable
  write succeeds. \<open>als_remove\<close> turns the power off only after \<open>als_set_intr_state\<close>
  has returned 0. On a powered session whose bus fails the interrupt write with -5, it
  issues that one write, returns -5 and leaves \<open>power_state\<close> at 1 with no write to
  the control register; on a session that is powered off it returns \<open>-EAGAIN\<close> with no
  bus I/O at all, \<open>intr_en\<close> still set.
\<close>

theorem als_remove_skips_power_off:
  "power_state session_on_eio = 1 \<and>
   als_remove session_on_eio
     = (- 5, session_on_eio\<lparr>client := bus_eio\<lparr>xfers := [Write_byte_data 0x86 0]\<rparr>\<rparr>) \<and>
   power_state (snd (als_remove session_on_eio)) = 1 \<and>
   intr_en (snd (als_remove session_on_eio)) = 1 \<and>
   intr_en session_off = 1 \<and>
   als_remove session_off = (- EAGAIN, session_off) \<and>
   xfers (client (snd (als_remove session_off))) = []"
  by (simp add: als_remove_def io_defs session_defs reg_defs)

text \<open>
  Claim C10. Reading the high or low threshold (\<open>als_read_thresh\<close> with a rising or
  falling direction) and reading the interrupt configuration return the stored fields
  \<open>thresh_hi\<close>, \<open>thresh_low\<close> and \<open>intr_en\<close>; they issue no bus I/O, leave the session as
  it was and do not look at \<open>power_state\<close>, so they succeed while the device is
  powered off too.
\<close>

theorem getters_read_cache:
  "(extract_dir code = IIO_EV_DIR_RISING \<longrightarrow>
      als_read_thresh extract_dir data code val = (0, thresh_hi data, data)) \<and>
   (extract_dir code = IIO_EV_DIR_FALLING \<longrightarrow>
      als_read_thresh extract_dir data code val = (0, thresh_low data, data)) \<and>
   als_read_interrupt_config data code = (intr_en data, data)"
  by (simp add: als_read_thresh_def als_read_interrupt_config_def
      IIO_EV_DIR_RISING_def IIO_EV_DIR_FALLING_def)

theorem getters_read_cache_witness:
  "power_state session_off = 0 \<and>
   extract_dir_24 16777216 = IIO_EV_DIR_RISING \<and>
   extract_dir_24 33554432 = IIO_EV_DIR_FALLING \<and>
   als_read_thresh extract_dir_24 session_off 16777216 0 = (0, 100, session_off) \<and>
   als_read_thresh extract_dir_24 session_off 33554432 0 = (0, 10, session_off) \<and>
   als_read_interrupt_config session_off 16777216 = (1, session_off)"
proof -
  have r: "extract_dir_24 16777216 = IIO_EV_DIR_RISING"
    by (simp add: extract_dir_24_def IIO_EV_DIR_RISING_def)
  have f: "extract_dir_24 33554432 = IIO_EV_DIR_FALLING"
    by (simp add: extract_dir_24_def IIO_EV_DIR_FALLING_def)
  have s: "power_state session_off = 0 \<and> thresh_hi session_off = 100 \<and>
           thresh_low session_off = 10 \<and> intr_en session_off = 1"
    by (simp add: session_off_def)
  show ?thesis
    using getters_read_cache [of extract_dir_24 16777216 session_off 0]
      getters_read_cache [of extract_dir_24 33554432 session_off 0] r f s
    by simp
qed

end
